theory Spec2Isabelle
  imports Main
begin

section \<open>Errors raised by the JavaScript sources\<close>

text \<open>
  Every \<open>throw\<close> of the sources, and every exception the language itself raises on the
  paths that are modelled, is a value of this type: reading an identifier that has no
  binding is a \<open>ReferenceError\<close>, assigning to a \<open>const\<close> binding is a \<open>TypeError\<close>,
  \<open>throw new Error(msg)\<close> is \<open>Error msg\<close>.
\<close>

datatype error = ReferenceError string | TypeError string | Error string

section \<open>The on-demand server (broker module)\<close>

subsection \<open>Module scope\<close>

text \<open>
  The module-level bindings of the broker module. \<open>httpServer\<close> and \<open>webpackDevServer\<close>
  are declared with \<open>let\<close> and start out undefined (\<open>None\<close>); their values are handles,
  modelled as numbers. \<open>webpackEntryPoints\<close> is the content of the binding of that name
  when the scope has one: a JavaScript \<open>Set\<close> of strings, kept as the list of its members
  in insertion order; \<open>None\<close> says that the scope has no binding of that name.
  What the module does to the outside world is recorded in \<open>effects\<close>, oldest first.
\<close>

datatype effect =
    ServerClosed nat
  | ProcessKilled nat
  | ProcessSpawned nat string

record scope =
  httpServer :: "nat option"
  webpackDevServer :: "nat option"
  webpackEntryPoints :: "string list option"
  effects :: "effect list"
  next_handle :: nat

text \<open>The operations of a JavaScript \<open>Set\<close> on its insertion-ordered member list.\<close>

definition set_has :: "string list \<Rightarrow> string \<Rightarrow> bool" where
  "set_has members x = (x \<in> set members)"

definition set_add :: "string list \<Rightarrow> string \<Rightarrow> string list" where
  "set_add members x = (if x \<in> set members then members else members @ [x])"

text \<open>\<open>Array.prototype.join(',')\<close> on an array of strings.\<close>

fun join_comma :: "string list \<Rightarrow> string" where
  "join_comma [] = []"
| "join_comma [x] = x"
| "join_comma (x # y # ys) = x @ '','' @ join_comma (y # ys)"

text \<open>
  Evaluating the identifier \<open>webpackEntryPoints\<close>: the value of the binding, or the
  \<open>ReferenceError\<close> that JavaScript raises for an identifier without a binding.
\<close>

definition read_webpackEntryPoints :: "scope \<Rightarrow> error + string list" where
  "read_webpackEntryPoints s =
     (case webpackEntryPoints s of
        None \<Rightarrow> Inl (ReferenceError ''webpackEntryPoints is not defined'')
      | Some members \<Rightarrow> Inr members)"

text \<open>
  The scope the module text creates: \<open>let httpServer; let webpackDevServer;\<close> and no
  declaration of \<open>webpackEntryPoints\<close> (the line \<open>const webpackEntryPoints = new Set();\<close>
  is a comment in the source).
\<close>

definition module_scope :: scope where
  "module_scope =
     \<lparr>httpServer = None, webpackDevServer = None, webpackEntryPoints = None,
      effects = [], next_handle = 0\<rparr>"

text \<open>
  The scope the module text would create with the commented-out declaration restored;
  it serves to state what the operations do once the binding exists.
\<close>

definition declared_scope :: scope where
  "declared_scope = module_scope\<lparr>webpackEntryPoints := Some []\<rparr>"

text \<open>
  Loading the module runs its top-level statements; the first one after the two \<open>let\<close>s
  is \<open>exports.webpackEntryPoints = webpackEntryPoints\<close>, which evaluates the identifier.
  The result is the exception, or the scope in which \<open>create\<close> is then exported.
\<close>

definition load_module :: "error + scope" where
  "load_module =
     (case read_webpackEntryPoints module_scope of
        Inl e \<Rightarrow> Inl e
      | Inr members \<Rightarrow> Inr module_scope)"

subsection \<open>reset\<close>

text \<open>
  \<open>reset\<close> (inside \<open>create\<close>): close the on-demand server when there is one, clear the set,
  kill the dev server when there is one, forget its handle. An exception leaves the
  state as it was when it was raised, so the state is returned in both cases.
\<close>

definition reset :: "scope \<Rightarrow> (error + unit) \<times> scope" where
  "reset s =
     (let s1 = (case httpServer s of
                  None \<Rightarrow> s
                | Some h \<Rightarrow> s\<lparr>effects := effects s @ [ServerClosed h]\<rparr>)
      in case read_webpackEntryPoints s1 of
           Inl e \<Rightarrow> (Inl e, s1)
         | Inr members \<Rightarrow>
             (let s2 = s1\<lparr>webpackEntryPoints := Some []\<rparr>;
                  s3 = (case webpackDevServer s2 of
                          None \<Rightarrow> s2
                        | Some p \<Rightarrow> s2\<lparr>effects := effects s2 @ [ProcessKilled p]\<rparr>)
              in (Inr (), s3\<lparr>webpackDevServer := None\<rparr>)))"

subsection \<open>spawnWebpackForEntry\<close>

text \<open>
  \<open>entryTargets.some((target) => !webpackEntryPoints.has(target))\<close>: the callback runs
  once per element, left to right, until it returns true; each run evaluates the
  identifier. On an empty array the callback never runs.
\<close>

fun hasNewTargets :: "scope \<Rightarrow> string list \<Rightarrow> error + bool" where
  "hasNewTargets s [] = Inr False"
| "hasNewTargets s (target # rest) =
     (case read_webpackEntryPoints s of
        Inl e \<Rightarrow> Inl e
      | Inr members \<Rightarrow>
          if \<not> set_has members target then Inr True else hasNewTargets s rest)"

text \<open>\<open>entryTargets.forEach((target) => webpackEntryPoints.add(target))\<close>.\<close>

fun trackTargets :: "scope \<Rightarrow> string list \<Rightarrow> error + scope" where
  "trackTargets s [] = Inr s"
| "trackTargets s (target # rest) =
     (case read_webpackEntryPoints s of
        Inl e \<Rightarrow> Inl e
      | Inr members \<Rightarrow>
          trackTargets (s\<lparr>webpackEntryPoints := Some (set_add members target)\<rparr>) rest)"

text \<open>
  The function returns \<open>{ reused: true }\<close> or \<open>{ reused: false }\<close>; the result here is
  that flag. The spawned process gets a fresh handle and the environment variable
  \<open>ENTRY_TARGET\<close>, the comma-joined members of the set.
\<close>

definition spawnWebpackForEntry :: "string list \<Rightarrow> scope \<Rightarrow> (error + bool) \<times> scope" where
  "spawnWebpackForEntry entryTargets s =
     (case hasNewTargets s entryTargets of
        Inl e \<Rightarrow> (Inl e, s)
      | Inr False \<Rightarrow> (Inr True, s)
      | Inr True \<Rightarrow>
          (case trackTargets s entryTargets of
             Inl e \<Rightarrow> (Inl e, s)
           | Inr s1 \<Rightarrow>
               (case read_webpackEntryPoints s1 of
                  Inl e \<Rightarrow> (Inl e, s1)
                | Inr unifiedEntryPoints \<Rightarrow>
                    (let s2 = (case webpackDevServer s1 of
                                 None \<Rightarrow> s1
                               | Some p \<Rightarrow> s1\<lparr>effects := effects s1 @ [ProcessKilled p]\<rparr>);
                         h = next_handle s2
                     in (Inr False,
                         s2\<lparr>webpackDevServer := Some h,
                            effects := effects s2 @ [ProcessSpawned h (join_comma unifiedEntryPoints)],
                            next_handle := Suc h\<rparr>)))))"

subsection \<open>findRootEntryForAsset\<close>

text \<open>
  Node's \<open>path.parse\<close> (POSIX flavour), restricted to the two fields the source reads,
  \<open>dir\<close> and \<open>name\<close>. Trailing slashes are ignored; \<open>base\<close> is the last path component,
  \<open>dir\<close> what precedes its separator (\<open>/\<close> for a component directly under the root);
  \<open>name\<close> is \<open>base\<close> without its extension, where the extension starts at the last dot
  of \<open>base\<close> unless that dot is its first character or \<open>base\<close> is \<open>..\<close>. Node
  recognises \<open>..\<close> by comparing the index of the last dot with \<open>startPart + 1\<close>, and
  \<open>startPart\<close> stays \<open>0\<close> when the scan from the end meets no separator, which for an
  absolute path is a component directly under the root: there \<open>..\<close> is not recognised,
  and \<open>path.parse('/..')\<close> has the name \<open>.\<close> (\<open>underRoot\<close> below).
\<close>

definition parse_name :: "bool \<Rightarrow> string \<Rightarrow> string" where
  "parse_name underRoot base =
     (let ext = rev (takeWhile (\<lambda>c. c \<noteq> CHR ''.'') (rev base));
          startDot = length base - length ext - 1
      in if CHR ''.'' \<notin> set base \<or> startDot = 0 \<or> (base = ''..'' \<and> \<not> underRoot) then base
         else take startDot base)"

definition path_parse :: "string \<Rightarrow> string \<times> string" where
  "path_parse p =
     (if p = [] then ([], [])
      else
        let isAbsolute = (hd p = CHR ''/'');
            root = (if isAbsolute then ''/'' else []);
            body = (if isAbsolute then tl p else p);
            trimmed = rev (dropWhile (\<lambda>c. c = CHR ''/'') (rev body))
        in if trimmed = [] then (root, [])
           else
             let base = rev (takeWhile (\<lambda>c. c \<noteq> CHR ''/'') (rev trimmed));
                 leading = take (length trimmed - length base) trimmed
             in (if leading = [] then root else root @ butlast leading,
                 parse_name (isAbsolute \<and> leading = []) base))"

text \<open>\<open>s.slice(-4)\<close> and \<open>s.slice(0, -4)\<close> on a string.\<close>

definition slice_last4 :: "string \<Rightarrow> string" where
  "slice_last4 s = drop (length s - 4) s"

definition slice_drop_last4 :: "string \<Rightarrow> string" where
  "slice_drop_last4 s = take (length s - 4) s"

text \<open>\<open>s.indexOf('src/less/') === 0\<close>.\<close>

definition starts_with_src_less :: "string \<Rightarrow> bool" where
  "starts_with_src_less s = (take 9 s = ''src/less/'')"

text \<open>
  The callback of \<open>cssEntries.forEach\<close>, threading \<open>hasMatch\<close>. \<open>assetWithoutRTL\<close> is
  declared \<open>const\<close>, so the assignment in the \<open>src/less/\<close> branch raises a \<open>TypeError\<close>
  before anything is compared.
\<close>

definition cssEntry_step :: "string \<Rightarrow> bool \<Rightarrow> string \<Rightarrow> error + bool" where
  "cssEntry_step asset hasMatch cssEntry =
     (let (dir, name) = path_parse cssEntry;
          basename = dir @ ''/'' @ name;
          hasRTL = (slice_last4 asset = ''.rtl'');
          assetWithoutRTL = (if hasRTL then slice_drop_last4 asset else asset)
      in if starts_with_src_less assetWithoutRTL
         then Inl (TypeError ''Assignment to constant variable.'')
         else if \<not> hasMatch \<and> basename = assetWithoutRTL then Inr True
         else Inr hasMatch)"

fun cssEntries_forEach :: "string \<Rightarrow> bool \<Rightarrow> string list \<Rightarrow> error + bool" where
  "cssEntries_forEach asset hasMatch [] = Inr hasMatch"
| "cssEntries_forEach asset hasMatch (cssEntry # rest) =
     (case cssEntry_step asset hasMatch cssEntry of
        Inl e \<Rightarrow> Inl e
      | Inr hasMatch' \<Rightarrow> cssEntries_forEach asset hasMatch' rest)"

text \<open>\<open>jsEntries.forEach\<close>: \<open>hasMatch\<close> becomes true when some script entry is the asset.\<close>

fun jsEntries_forEach :: "string \<Rightarrow> bool \<Rightarrow> string list \<Rightarrow> bool" where
  "jsEntries_forEach asset hasMatch [] = hasMatch"
| "jsEntries_forEach asset hasMatch (jsEntry # rest) =
     jsEntries_forEach asset (if \<not> hasMatch \<and> jsEntry = asset then True else hasMatch) rest"

text \<open>
  \<open>rootEntry\<close> is undefined (\<open>None\<close>) or a string; it is truthy when it is a non-empty
  string. \<open>jsEntries[0]\<close> of an empty array is undefined.
\<close>

definition truthy :: "string option \<Rightarrow> bool" where
  "truthy v = (case v of None \<Rightarrow> False | Some str \<Rightarrow> str \<noteq> [])"

definition first_entry :: "string list \<Rightarrow> string option" where
  "first_entry jsEntries = (case jsEntries of [] \<Rightarrow> None | x # xs \<Rightarrow> Some x)"

text \<open>
  The callback of \<open>entryPoints.forEach\<close>, threading \<open>rootEntry\<close>; an entry point is the
  pair of its script list and its style list.
\<close>

fun entryPoints_forEach ::
  "string \<Rightarrow> string option \<Rightarrow> (string list \<times> string list) list \<Rightarrow> error + string option"
where
  "entryPoints_forEach asset rootEntry [] = Inr rootEntry"
| "entryPoints_forEach asset rootEntry ((jsEntries, cssEntries) # rest) =
     (if truthy rootEntry then entryPoints_forEach asset rootEntry rest
      else
        case cssEntries_forEach asset (jsEntries_forEach asset False jsEntries) cssEntries of
          Inl e \<Rightarrow> Inl e
        | Inr hasMatch \<Rightarrow>
            entryPoints_forEach asset
              (if hasMatch then first_entry jsEntries else rootEntry) rest)"

definition findRootEntryForAsset ::
  "(string list \<times> string list) list \<Rightarrow> string \<Rightarrow> error + string option"
where
  "findRootEntryForAsset entryPoints asset = entryPoints_forEach asset None entryPoints"

text \<open>
  Vocabulary for stating what \<open>findRootEntryForAsset\<close> computes: the asset with a
  trailing \<open>.rtl\<close> removed, the name a style entry is compared under, and when an entry
  point claims an asset.
\<close>

definition strip_rtl :: "string \<Rightarrow> string" where
  "strip_rtl asset = (if slice_last4 asset = ''.rtl'' then slice_drop_last4 asset else asset)"

definition style_basename :: "string \<Rightarrow> string" where
  "style_basename cssEntry = (case path_parse cssEntry of (dir, name) \<Rightarrow> dir @ ''/'' @ name)"

definition claims :: "string \<Rightarrow> string list \<times> string list \<Rightarrow> bool" where
  "claims asset entry = (case entry of (jsEntries, cssEntries) \<Rightarrow>
      asset \<in> set jsEntries \<or> strip_rtl asset \<in> style_basename ` set cssEntries)"

section \<open>The style import resolver (postcss-import)\<close>

subsection \<open>Syntax trees\<close>

text \<open>
  The nodes of a PostCSS syntax tree, with the properties the plugin reads: \<open>type\<close>,
  \<open>import\<close> and \<open>filename\<close> (set by the LESS syntax on an \<open>@import\<close>),
  \<open>fromInclusionRule\<close> (the tag of the inclusion rule an import was written under;
  \<open>None\<close> is \<open>undefined\<close>), \<open>selector\<close> (of a rule), \<open>text\<close> (of a comment) and
  \<open>raws.before\<close>. The plugin never changes these except \<open>raws.before\<close>.
\<close>

datatype node_type = Root | AtRule | Rule | Decl | Comment

record props =
  ntype :: node_type
  is_import :: bool
  filename :: string
  fromInclusionRule :: "string option"
  selector :: "string option"
  comment_text :: string
  before :: string

text \<open>
  What the parser makes of the text of a file: a tree of properties; the children of a
  node are its \<open>nodes\<close> array, absent (\<open>None\<close>) for a node that is not a container.
\<close>

datatype ast = Ast props "ast list option"

text \<open>
  The plugin works on objects: it compares nodes by identity (\<open>indexOf\<close>), reaches the
  same node through several arrays, and changes \<open>nodes\<close> arrays and \<open>raws.before\<close> in
  place. So a parsed tree lives in a heap of nodes, each with an identity; \<open>nodes\<close> holds
  the identities of the children and \<open>parent\<close> that of the parent. \<open>ltree\<close> is a parsed
  tree together with the identities its nodes got: \<open>findImports\<close> walks it, which is
  walking the objects, since nothing changes a tree before the walk over all trees has
  ended.
\<close>

type_synonym node_id = nat

datatype ltree = LTree node_id props "ltree list option"

fun ltree_id :: "ltree \<Rightarrow> node_id" where
  "ltree_id (LTree i p kids) = i"

record node =
  info :: props
  raws_before :: string
  nodes :: "node_id list option"
  parent :: "node_id option"

type_synonym heap = "node_id \<Rightarrow> node"

definition root_props :: props where
  "root_props = \<lparr>ntype = Root, is_import = False, filename = [], fromInclusionRule = None,
                  selector = None, comment_text = [], before = []\<rparr>"

definition blank_node :: node where
  "blank_node = \<lparr>info = root_props, raws_before = [], nodes = None, parent = None\<rparr>"

text \<open>
  Parsing creates the objects: \<open>alloc\<close> gives the nodes of a tree fresh identities, in
  document order, and writes them to the heap.
\<close>

fun alloc :: "node_id option \<Rightarrow> ast \<Rightarrow> heap \<times> nat \<Rightarrow> ltree \<times> heap \<times> nat"
and alloc_list :: "node_id option \<Rightarrow> ast list \<Rightarrow> heap \<times> nat \<Rightarrow> ltree list \<times> heap \<times> nat"
where
  "alloc par (Ast p kids) (h, n) =
     (case kids of
        None \<Rightarrow>
          (LTree n p None,
           h(n := \<lparr>info = p, raws_before = before p, nodes = None, parent = par\<rparr>),
           Suc n)
      | Some ks \<Rightarrow>
          (case alloc_list (Some n) ks (h, Suc n) of
             (lks, h', n') \<Rightarrow>
               (LTree n p (Some lks),
                h'(n := \<lparr>info = p, raws_before = before p,
                         nodes = Some (map ltree_id lks), parent = par\<rparr>),
                n')))"
| "alloc_list par [] (h, n) = ([], h, n)"
| "alloc_list par (a # as) (h, n) =
     (case alloc par a (h, n) of
        (l, h', n') \<Rightarrow>
          (case alloc_list par as (h', n') of
             (ls, h'', n'') \<Rightarrow> (l # ls, h'', n'')))"

subsection \<open>Results\<close>

text \<open>
  A run of the hook ends with a result (\<open>Done\<close>) or with an exception, which rejects the
  promise of the \<open>async\<close> function (\<open>Raised\<close>). The recursions of the source over trees
  whose depth is not known in advance (files importing files, node lists reached
  through the heap) take a bound on their depth; \<open>Diverged\<close> says the bound was reached.
\<close>

datatype 'a outcome = Diverged | Raised error | Done 'a

subsection \<open>Options, files and resolver state\<close>

text \<open>
  The options of a plugin instance: \<open>modifier\<close> and \<open>plugins\<close>, the plugins of the
  nested parses (\<open>options.plugins || []\<close>), which are instances of this plugin, as in
  webpack-config, where the plugin is created with \<open>plugins: importPlugins\<close> and
  \<open>importPlugins\<close> holds one instance created without. \<open>options.resolve\<close> is the same
  function for all instances there; it is a parameter of the model, together with the
  files: \<open>files E path\<close> is what \<open>readFile\<close> and the parser give for a path, \<open>None\<close>
  when there is no such file.
\<close>

datatype options = Options (modifier: "string option") (plugins: "options list")

record env =
  resolve :: "string \<Rightarrow> string \<Rightarrow> string"
  files :: "string \<Rightarrow> ast list option"

text \<open>
  \<open>importOpts\<close>, the record of an imported file, and the state shared by the root run and
  the nested runs through \<open>result.opts\<close>: the \<open>imports\<close> map and the \<open>orderedImports\<close>
  array. Both hold the same objects, and every record is pushed to the array when it is
  put into the map, so the map gives the position of the record in the array. \<open>reads\<close>
  lists the calls of \<open>readFile\<close>, oldest first.
\<close>

record import_record =
  root :: node_id
  styleNode :: node_id
  fullpath :: string
  fromPath :: string
  isGloballyImported :: bool
  inclusionRules :: "string list"

record rstate =
  heap :: heap
  next_id :: nat
  importsMap :: "string \<Rightarrow> nat option"
  orderedImports :: "import_record list"
  reads :: "string list"

text \<open>
  \<open>isImportNode\<close>; \<open>filename.replace(/'|"/g, '')\<close>; and Node's \<open>path.dirname\<close>
  (POSIX flavour): the path up to the separator before its last component, trailing
  separators ignored.
\<close>

definition isImportNode :: "props \<Rightarrow> bool" where
  "isImportNode p = (ntype p = AtRule \<and> is_import p)"

definition strip_quotes :: "string \<Rightarrow> string" where
  "strip_quotes s = filter (\<lambda>c. c \<noteq> CHR 0x27 \<and> c \<noteq> CHR 0x22) s"

definition dirname :: "string \<Rightarrow> string" where
  "dirname p =
     (if p = [] then ''.''
      else
        let hasRoot = (hd p = CHR ''/'');
            trimmed = dropWhile (\<lambda>c. c = CHR ''/'') (rev (tl p));
            upto_sep = dropWhile (\<lambda>c. c \<noteq> CHR ''/'') trimmed
        in if upto_sep = [] then (if hasRoot then ''/'' else ''.'')
           else if hasRoot \<and> length upto_sep = 1 then ''//''
           else take (length upto_sep) p)"

text \<open>
  \<open>postcss(...).process(contents, ...)\<close> up to the plugins: a new root node whose children
  are the parsed nodes.
\<close>

definition parse :: "ast list \<Rightarrow> rstate \<Rightarrow> (node_id \<times> ltree list) \<times> rstate" where
  "parse contents st =
     (let r = next_id st in
      case alloc_list (Some r) contents (heap st, Suc r) of
        (kids, h, n) \<Rightarrow>
          ((r, kids),
           st\<lparr>heap := h(r := \<lparr>info = root_props, raws_before = [],
                               nodes = Some (map ltree_id kids), parent = None\<rparr>),
              next_id := n\<rparr>))"

text \<open>
  The two updates of a record that exists already (\<open>imports.has(fullpath)\<close>), by the tag
  of the import that refers to it, and the record made for a file met for the first
  time. An empty tag is falsy, as \<open>undefined\<close> is.
\<close>

definition note_reference :: "string option \<Rightarrow> import_record \<Rightarrow> import_record" where
  "note_reference tag importOpts =
     (case tag of
        None \<Rightarrow> importOpts\<lparr>isGloballyImported := True\<rparr>
      | Some rule \<Rightarrow>
          if rule = [] then importOpts\<lparr>isGloballyImported := True\<rparr>
          else importOpts\<lparr>inclusionRules := set_add (inclusionRules importOpts) rule\<rparr>)"

definition new_record ::
  "node_id \<Rightarrow> node_id \<Rightarrow> string \<Rightarrow> string \<Rightarrow> string option \<Rightarrow> import_record"
where
  "new_record r sn full from tag =
     \<lparr>root = r, styleNode = sn, fullpath = full, fromPath = from,
      isGloballyImported = (\<not> truthy tag),
      inclusionRules = (case tag of None \<Rightarrow> [] | Some rule \<Rightarrow> if rule = [] then [] else [rule])\<rparr>"

subsection \<open>Discovery\<close>

text \<open>
  \<open>findImports(styles, fromPath)\<close>: the \<open>reduce\<close> over \<open>styles.nodes\<close> awaits the promise
  of the node before, so the nodes are handled one after the other, in document order.
  For an import whose path has no record: read and parse the file, which runs the
  plugins of the nested parse on it (\<open>runPlugins\<close>: each is this hook with \<open>nested\<close> set,
  so it runs \<open>findImports\<close> on the new tree and returns), then make the record, put it
  into the map and the array, and look for imports in the new tree. For another
  container: look for imports among its children. The bound \<open>fuel\<close> decreases from a
  file to a file it imports.
\<close>

fun findImports ::
  "env \<Rightarrow> options \<Rightarrow> nat \<Rightarrow> ltree list \<Rightarrow> string \<Rightarrow> rstate \<Rightarrow> rstate outcome"
and runPlugins ::
  "env \<Rightarrow> options list \<Rightarrow> nat \<Rightarrow> ltree list \<Rightarrow> string \<Rightarrow> rstate \<Rightarrow> rstate outcome"
where
  "findImports E opts fuel [] from st = Done st"
| "findImports E opts fuel (LTree sn p kids # rest) from st =
     (if isImportNode p then
        (let full = resolve E (strip_quotes (filename p)) (dirname from) in
         case importsMap st full of
           Some i \<Rightarrow>
             findImports E opts fuel rest from
               (st\<lparr>orderedImports :=
                     (orderedImports st)[i := note_reference (fromInclusionRule p)
                                                 (orderedImports st ! i)]\<rparr>)
         | None \<Rightarrow>
             (case fuel of
                0 \<Rightarrow> Diverged
              | Suc fuel' \<Rightarrow>
                  (case files E full of
                     None \<Rightarrow> Raised (Error (''ENOENT: no such file or directory, open '' @ full))
                   | Some contents \<Rightarrow>
                       (case parse contents (st\<lparr>reads := reads st @ [full]\<rparr>) of
                          ((r, tree), st1) \<Rightarrow>
                            (case runPlugins E (plugins opts) fuel' tree full st1 of
                               Diverged \<Rightarrow> Diverged
                             | Raised e \<Rightarrow> Raised e
                             | Done st2 \<Rightarrow>
                                 (case findImports E opts fuel' tree full
                                         (st2\<lparr>importsMap := (importsMap st2)(full := Some (length (orderedImports st2))),
                                              orderedImports := orderedImports st2
                                                @ [new_record r sn full from (fromInclusionRule p)]\<rparr>) of
                                    Diverged \<Rightarrow> Diverged
                                  | Raised e \<Rightarrow> Raised e
                                  | Done st3 \<Rightarrow> findImports E opts fuel rest from st3))))))
      else
        (case kids of
           None \<Rightarrow> findImports E opts fuel rest from st
         | Some ks \<Rightarrow>
             (case findImports E opts fuel ks from st of
                Diverged \<Rightarrow> Diverged
              | Raised e \<Rightarrow> Raised e
              | Done st1 \<Rightarrow> findImports E opts fuel rest from st1)))"
| "runPlugins E [] fuel tree from st = Done st"
| "runPlugins E (plugin # others) fuel tree from st =
     (case findImports E plugin fuel tree from st of
        Diverged \<Rightarrow> Diverged
      | Raised e \<Rightarrow> Raised e
      | Done st1 \<Rightarrow> runPlugins E others fuel tree from st1)"

subsection \<open>JavaScript arrays\<close>

text \<open>
  \<open>Array.prototype.indexOf\<close> (\<open>-1\<close> when absent), reading an index (\<open>undefined\<close>
  outside the array, here \<open>None\<close>), \<open>splice(start, deleteCount, ...items)\<close> with
  JavaScript's treatment of a negative or too large \<open>start\<close>, and
  \<open>String.prototype.includes\<close>.
\<close>

fun indexOf :: "'a list \<Rightarrow> 'a \<Rightarrow> int" where
  "indexOf [] x = -1"
| "indexOf (y # ys) x = (if y = x then 0 else (let i = indexOf ys x in if i = -1 then -1 else i + 1))"

definition js_nth :: "'a list \<Rightarrow> int \<Rightarrow> 'a option" where
  "js_nth xs i = (if 0 \<le> i \<and> i < int (length xs) then Some (xs ! nat i) else None)"

definition splice :: "'a list \<Rightarrow> int \<Rightarrow> nat \<Rightarrow> 'a list \<Rightarrow> 'a list" where
  "splice xs start deleteCount items =
     (let len = int (length xs);
          s = nat (if start < 0 then max (len + start) 0 else min start len)
      in take s xs @ items @ drop (s + deleteCount) xs)"

fun str_includes :: "string \<Rightarrow> string \<Rightarrow> bool" where
  "str_includes [] sub = (sub = [])"
| "str_includes (c # cs) sub = (take (length sub) (c # cs) = sub \<or> str_includes cs sub)"

subsection \<open>Injection\<close>

text \<open>
  Reading and writing the heap: the \<open>nodes\<close> array of a node (empty for a node without
  one, where the source would raise and the callers check before), assigning a new
  content to it, and assigning \<open>raws.before\<close>.
\<close>

definition node_list :: "heap \<Rightarrow> node_id \<Rightarrow> node_id list" where
  "node_list h n = (case nodes (h n) of None \<Rightarrow> [] | Some ns \<Rightarrow> ns)"

definition set_nodes :: "heap \<Rightarrow> node_id \<Rightarrow> node_id list \<Rightarrow> heap" where
  "set_nodes h n ns = h(n := (h n)\<lparr>nodes := Some ns\<rparr>)"

definition set_before :: "heap \<Rightarrow> node_id \<Rightarrow> string \<Rightarrow> heap" where
  "set_before h n s = h(n := (h n)\<lparr>raws_before := s\<rparr>)"

text \<open>
  \<open>safeRemove(node)\<close>: PostCSS's \<open>node.remove()\<close> inside \<open>try\<close>/\<open>catch\<close>. \<open>remove\<close> takes the
  node out of the \<open>nodes\<close> of its parent and clears its \<open>parent\<close>; without a parent it
  does nothing to the tree; when the parent does not hold the node it raises, which
  \<open>safeRemove\<close> swallows, leaving everything as it was.
\<close>

definition safeRemove :: "heap \<Rightarrow> node_id \<Rightarrow> heap" where
  "safeRemove h n =
     (case parent (h n) of
        None \<Rightarrow> h
      | Some p \<Rightarrow>
          (case nodes (h p) of
             None \<Rightarrow> h
           | Some ns \<Rightarrow>
               if n \<in> set ns
               then (let h1 = h(n := (h n)\<lparr>parent := None\<rparr>)
                     in h1(p := (h1 p)\<lparr>nodes := Some (remove1 n ns)\<rparr>))
               else h))"

text \<open>
  \<open>removeAllImports(rootNode)\<close>: the loop runs over a copy of \<open>rootNode.nodes\<close> (the
  third argument) while \<open>rootNode.nodes\<close> itself shrinks. An import is spliced out at
  the index \<open>indexOf\<close> gives, and the node that takes its place gets a newline before it;
  another container is swept in turn. The bound \<open>fuel\<close> decreases from a node to its
  children.
\<close>

fun removeAllImports :: "nat \<Rightarrow> node_id \<Rightarrow> node_id list \<Rightarrow> heap \<Rightarrow> heap outcome" where
  "removeAllImports fuel rootNode [] h = Done h"
| "removeAllImports fuel rootNode (n # rest) h =
     (if isImportNode (info (h n)) then
        (let i = indexOf (node_list h rootNode) n;
             remaining = splice (node_list h rootNode) i 1 [];
             h1 = set_nodes h rootNode remaining;
             h2 = (case js_nth remaining i of
                     None \<Rightarrow> h1
                   | Some follower \<Rightarrow> set_before h1 follower [CHR 0x0A])
         in removeAllImports fuel rootNode rest h2)
      else
        (case nodes (h n) of
           None \<Rightarrow> removeAllImports fuel rootNode rest h
         | Some snapshot \<Rightarrow>
             (case fuel of
                0 \<Rightarrow> Diverged
              | Suc fuel' \<Rightarrow>
                  (case removeAllImports fuel' n snapshot h of
                     Diverged \<Rightarrow> Diverged
                   | Raised e \<Rightarrow> Raised e
                   | Done h1 \<Rightarrow> removeAllImports fuel rootNode rest h1))))"

text \<open>
  \<open>recursiveLook(nodes)\<close>, the search for the import node below the \<open>nodes\<close> of its
  parent when the parent does not hold it: it carries the two variables it assigns,
  \<open>index\<close> and \<open>parentNodes\<close>, and stops assigning once \<open>index\<close> is found.
\<close>

fun recursiveLook ::
  "nat \<Rightarrow> heap \<Rightarrow> node_id \<Rightarrow> node_id list \<Rightarrow> int \<times> node_id list
     \<Rightarrow> (int \<times> node_id list) outcome"
where
  "recursiveLook fuel h sn [] acc = Done acc"
| "recursiveLook fuel h sn (n # rest) (index, parentNodes) =
     (if index > -1 then Done (index, parentNodes)
      else
        (case nodes (h n) of
           None \<Rightarrow> recursiveLook fuel h sn rest (index, parentNodes)
         | Some kids \<Rightarrow>
             (let index' = indexOf kids sn in
              if index' = -1 then
                (case fuel of
                   0 \<Rightarrow> Diverged
                 | Suc fuel' \<Rightarrow>
                     (case recursiveLook fuel' h sn kids (index', parentNodes) of
                        Diverged \<Rightarrow> Diverged
                      | Raised e \<Rightarrow> Raised e
                      | Done acc \<Rightarrow> recursiveLook fuel h sn rest acc))
              else recursiveLook fuel h sn rest (index', kids))))"

text \<open>
  \<open>findSelector(selector)\<close>: both loops run to their end and keep the last node whose
  \<open>selector\<close> is the given selector, plain or behind \<open>options.modifier\<close> (in a template
  literal, so an absent modifier reads \<open>undefined\<close>). The top-level nodes of the root
  document are searched first, and only when they hold no match the top-level nodes of
  all records' subtrees.
\<close>

definition modifier_text :: "options \<Rightarrow> string" where
  "modifier_text opts = (case modifier opts of None \<Rightarrow> ''undefined'' | Some m \<Rightarrow> m)"

definition selector_matches :: "options \<Rightarrow> heap \<Rightarrow> string \<Rightarrow> node_id \<Rightarrow> bool" where
  "selector_matches opts h sel n =
     (selector (info (h n)) = Some sel \<or> selector (info (h n)) = Some (modifier_text opts @ sel))"

fun lastMatch :: "options \<Rightarrow> heap \<Rightarrow> string \<Rightarrow> node_id list \<Rightarrow> node_id option \<Rightarrow> node_id option" where
  "lastMatch opts h sel [] foundRule = foundRule"
| "lastMatch opts h sel (n # rest) foundRule =
     lastMatch opts h sel rest (if selector_matches opts h sel n then Some n else foundRule)"

fun lastMatchImports ::
  "options \<Rightarrow> heap \<Rightarrow> string \<Rightarrow> import_record list \<Rightarrow> node_id option \<Rightarrow> node_id option"
where
  "lastMatchImports opts h sel [] foundRule = foundRule"
| "lastMatchImports opts h sel (r # rest) foundRule =
     lastMatchImports opts h sel rest (lastMatch opts h sel (node_list h (root r)) foundRule)"

definition findSelector ::
  "options \<Rightarrow> heap \<Rightarrow> node_id \<Rightarrow> import_record list \<Rightarrow> string \<Rightarrow> node_id option"
where
  "findSelector opts h rootId ois sel =
     (case lastMatch opts h sel (node_list h rootId) None of
        Some foundRule \<Rightarrow> Some foundRule
      | None \<Rightarrow> lastMatchImports opts h sel ois None)"

text \<open>
  The replacement inside the found rule: the loop runs over a copy of
  \<open>foundRule.nodes\<close>; a child that is an import and resolves to the path of the record,
  from the directory of the file that imported the record first (\<open>fromPath\<close>), is
  replaced in \<open>foundRule.nodes\<close>, at the index \<open>indexOf\<close> gives, by the top-level nodes
  of the record's subtree, and \<open>foundImport\<close> is set.
\<close>

definition is_import_of :: "env \<Rightarrow> import_record \<Rightarrow> heap \<Rightarrow> node_id \<Rightarrow> bool" where
  "is_import_of E r h n =
     (isImportNode (info (h n))
      \<and> resolve E (strip_quotes (filename (info (h n)))) (dirname (fromPath r)) = fullpath r)"

fun replaceImports ::
  "env \<Rightarrow> import_record \<Rightarrow> node_id \<Rightarrow> node_id list \<Rightarrow> heap \<times> bool \<Rightarrow> heap \<times> bool"
where
  "replaceImports E r foundRule [] acc = acc"
| "replaceImports E r foundRule (n # rest) (h, foundImport) =
     (if is_import_of E r h n then
        (let compareIndex = indexOf (node_list h foundRule) n
         in replaceImports E r foundRule rest
              (set_nodes h foundRule
                 (splice (node_list h foundRule) compareIndex 1 (node_list h (root r))),
               True))
      else replaceImports E r foundRule rest (h, foundImport))"

text \<open>
  The callback of \<open>Array.from(inclusionRules).forEach\<close> and the loop itself: the two
  \<open>throw\<close>s of the source are the two \<open>Error\<close>s here.
\<close>

definition injectRule ::
  "env \<Rightarrow> options \<Rightarrow> node_id \<Rightarrow> import_record list \<Rightarrow> import_record \<Rightarrow> heap \<Rightarrow> string
     \<Rightarrow> heap outcome"
where
  "injectRule E opts rootId ois r h rule =
     (case findSelector opts h rootId ois (''.'' @ rule) of
        None \<Rightarrow> Raised (Error (''Missing inclusion rule selector '' @ rule))
      | Some foundRule \<Rightarrow>
          (case nodes (h foundRule) of
             None \<Rightarrow> Raised (TypeError ''foundRule.nodes is not iterable'')
           | Some snapshot \<Rightarrow>
               (case replaceImports E r foundRule snapshot (h, False) of
                  (h1, foundImport) \<Rightarrow>
                    if foundImport then Done h1
                    else Raised (Error (''Unable to inject inclusion import, missing @import ''
                                          @ fullpath r)))))"

fun injectRules ::
  "env \<Rightarrow> options \<Rightarrow> node_id \<Rightarrow> import_record list \<Rightarrow> import_record \<Rightarrow> string list \<Rightarrow> heap
     \<Rightarrow> heap outcome"
where
  "injectRules E opts rootId ois r [] h = Done h"
| "injectRules E opts rootId ois r (rule # rest) h =
     (case injectRule E opts rootId ois r h rule of
        Diverged \<Rightarrow> Diverged
      | Raised e \<Rightarrow> Raised e
      | Done h1 \<Rightarrow> injectRules E opts rootId ois r rest h1)"

text \<open>
  The callback of \<open>orderedImports.forEach\<close>, in its steps: find the node before the
  import (\<open>locatePrevNode\<close>); put two newlines before the first node of the subtree
  (\<open>markFirst\<close>); queue the subtree's top-level nodes in \<open>sharedDependencies\<close> when the
  record is globally imported, else inject them into the inclusion rules
  (\<open>placeImport\<close>); remove the node before the import when it is a comment without
  \<open>condition\<close> in its text (\<open>cleanupComment\<close>). \<open>messages\<close> collects the files reported
  as dependencies.
\<close>

record merge_state =
  mheap :: heap
  sharedDependencies :: "node_id list"
  messages :: "string list"

definition removable_comment :: "heap \<Rightarrow> node_id option \<Rightarrow> bool" where
  "removable_comment h prevNode =
     (case prevNode of
        None \<Rightarrow> False
      | Some c \<Rightarrow> ntype (info (h c)) = Comment \<and> \<not> str_includes (comment_text (info (h c))) ''condition'')"

definition locatePrevNode :: "nat \<Rightarrow> heap \<Rightarrow> node_id \<Rightarrow> node_id option outcome" where
  "locatePrevNode fuel h sn =
     (case parent (h sn) of
        None \<Rightarrow> Raised (TypeError ''Cannot read properties of undefined (reading nodes)'')
      | Some par \<Rightarrow>
          (case nodes (h par) of
             None \<Rightarrow> Raised (TypeError ''Cannot read properties of undefined (reading indexOf)'')
           | Some parentNodes0 \<Rightarrow>
               (case (if indexOf parentNodes0 sn = -1
                      then recursiveLook fuel h sn parentNodes0 (-1, parentNodes0)
                      else Done (indexOf parentNodes0 sn, parentNodes0)) of
                  Diverged \<Rightarrow> Diverged
                | Raised e \<Rightarrow> Raised e
                | Done (index, parentNodes) \<Rightarrow> Done (js_nth parentNodes (index - 1)))))"

definition markFirst :: "heap \<Rightarrow> import_record \<Rightarrow> heap outcome" where
  "markFirst h r =
     (case nodes (h (root r)) of
        None \<Rightarrow> Raised (TypeError ''Cannot read properties of undefined (reading 0)'')
      | Some [] \<Rightarrow> Done h
      | Some (first # others) \<Rightarrow> Done (set_before h first [CHR 0x0A, CHR 0x0A]))"

definition placeImport ::
  "env \<Rightarrow> options \<Rightarrow> node_id \<Rightarrow> import_record list \<Rightarrow> import_record
     \<Rightarrow> heap \<times> node_id list \<Rightarrow> (heap \<times> node_id list) outcome"
where
  "placeImport E opts rootId ois r hs =
     (case hs of
        (h, sharedDeps) \<Rightarrow>
          if isGloballyImported r then Done (h, sharedDeps @ node_list h (root r))
          else (case injectRules E opts rootId ois r (inclusionRules r) h of
                  Diverged \<Rightarrow> Diverged
                | Raised e \<Rightarrow> Raised e
                | Done h1 \<Rightarrow> Done (h1, sharedDeps)))"

definition cleanupComment :: "heap \<Rightarrow> node_id option \<Rightarrow> heap" where
  "cleanupComment h prevNode =
     (case prevNode of
        None \<Rightarrow> h
      | Some c \<Rightarrow> if removable_comment h prevNode then safeRemove h c else h)"

definition mergeImport ::
  "env \<Rightarrow> options \<Rightarrow> nat \<Rightarrow> node_id \<Rightarrow> import_record list \<Rightarrow> import_record \<Rightarrow> merge_state
     \<Rightarrow> merge_state outcome"
where
  "mergeImport E opts fuel rootId ois r ms =
     (case locatePrevNode fuel (mheap ms) (styleNode r) of
        Diverged \<Rightarrow> Diverged
      | Raised e \<Rightarrow> Raised e
      | Done prevNode \<Rightarrow>
          (case markFirst (mheap ms) r of
             Diverged \<Rightarrow> Diverged
           | Raised e \<Rightarrow> Raised e
           | Done h1 \<Rightarrow>
               (case placeImport E opts rootId ois r (h1, sharedDependencies ms) of
                  Diverged \<Rightarrow> Diverged
                | Raised e \<Rightarrow> Raised e
                | Done (h2, sharedDeps) \<Rightarrow>
                    Done \<lparr>mheap = cleanupComment h2 prevNode,
                          sharedDependencies = sharedDeps,
                          messages = messages ms @ [fullpath r]\<rparr>)))"

fun mergeImports ::
  "env \<Rightarrow> options \<Rightarrow> nat \<Rightarrow> node_id \<Rightarrow> import_record list \<Rightarrow> import_record list \<Rightarrow> merge_state
     \<Rightarrow> merge_state outcome"
where
  "mergeImports E opts fuel rootId ois [] ms = Done ms"
| "mergeImports E opts fuel rootId ois (r # rest) ms =
     (case mergeImport E opts fuel rootId ois r ms of
        Diverged \<Rightarrow> Diverged
      | Raised e \<Rightarrow> Raised e
      | Done ms1 \<Rightarrow> mergeImports E opts fuel rootId ois rest ms1)"

subsection \<open>The plugin's OnceExit hook\<close>

text \<open>
  \<open>OnceExit\<close> of the root run (\<open>isRoot\<close>): discovery, the merge of all records, the
  splice of \<open>sharedDependencies\<close> at the start of the document, the sweep of the
  remaining imports. \<open>process\<close> is the same from the text of the root document: parsed
  into an empty heap, with an empty map and array.
\<close>

record resolved =
  document :: heap
  rootStyles :: node_id
  dependencies :: "string list"
  discovered :: rstate

definition OnceExit ::
  "env \<Rightarrow> options \<Rightarrow> nat \<Rightarrow> node_id \<Rightarrow> ltree list \<Rightarrow> string \<Rightarrow> rstate \<Rightarrow> resolved outcome"
where
  "OnceExit E opts fuel rootId tree from st0 =
     (case findImports E opts fuel tree from st0 of
        Diverged \<Rightarrow> Diverged
      | Raised e \<Rightarrow> Raised e
      | Done st \<Rightarrow>
          (case mergeImports E opts fuel rootId (orderedImports st) (orderedImports st)
                  \<lparr>mheap = heap st, sharedDependencies = [], messages = []\<rparr> of
             Diverged \<Rightarrow> Diverged
           | Raised e \<Rightarrow> Raised e
           | Done ms \<Rightarrow>
               (let h1 = set_nodes (mheap ms) rootId
                           (splice (node_list (mheap ms) rootId) 0 0 (sharedDependencies ms))
                in case removeAllImports fuel rootId (node_list h1 rootId) h1 of
                     Diverged \<Rightarrow> Diverged
                   | Raised e \<Rightarrow> Raised e
                   | Done h2 \<Rightarrow>
                       Done \<lparr>document = h2, rootStyles = rootId,
                             dependencies = messages ms, discovered = st\<rparr>)))"

definition initial_state :: rstate where
  "initial_state =
     \<lparr>heap = (\<lambda>i. blank_node), next_id = 0, importsMap = (\<lambda>p. None),
      orderedImports = [], reads = []\<rparr>"

definition process :: "env \<Rightarrow> options \<Rightarrow> nat \<Rightarrow> ast list \<Rightarrow> string \<Rightarrow> resolved outcome" where
  "process E opts fuel contents from =
     (case parse contents initial_state of
        ((rootId, tree), st0) \<Rightarrow> OnceExit E opts fuel rootId tree from st0)"



definition import_node :: "string \<Rightarrow> string option \<Rightarrow> ast" where
  "import_node file tag =
     Ast \<lparr>ntype = AtRule, is_import = True, filename = file, fromInclusionRule = tag,
          selector = None, comment_text = [], before = []\<rparr> None"

definition decl_node :: ast where
  "decl_node =
     Ast \<lparr>ntype = Decl, is_import = False, filename = [], fromInclusionRule = None,
          selector = None, comment_text = [], before = []\<rparr> None"

definition comment_node :: "string \<Rightarrow> ast" where
  "comment_node txt =
     Ast \<lparr>ntype = Comment, is_import = False, filename = [], fromInclusionRule = None,
          selector = None, comment_text = txt, before = []\<rparr> None"

definition join_resolve :: "string \<Rightarrow> string \<Rightarrow> string" where
  "join_resolve uri base = base @ ''/'' @ uri"

subsection \<open>Reading the result, and example inputs\<close>


definition records_found :: "resolved outcome \<Rightarrow> import_record list outcome" where
  "records_found out =
     (case out of
        Diverged \<Rightarrow> Diverged
      | Raised e \<Rightarrow> Raised e
      | Done res \<Rightarrow> Done (orderedImports (discovered res)))"

definition files_read :: "resolved outcome \<Rightarrow> string list outcome" where
  "files_read out =
     (case out of
        Diverged \<Rightarrow> Diverged
      | Raised e \<Rightarrow> Raised e
      | Done res \<Rightarrow> Done (reads (discovered res)))"

definition plain :: options where
  "plain = Options (Some ''&'') []"

definition nested :: options where
  "nested = Options (Some ''&'') [plain]"

text \<open>Reading intermediate results of a run on a concrete input.\<close>

fun is_Done :: "'a outcome \<Rightarrow> bool" where
  "is_Done (Done x) = True"
| "is_Done Diverged = False"
| "is_Done (Raised e) = False"

definition result_of :: "'a \<Rightarrow> 'a outcome \<Rightarrow> 'a" where
  "result_of d out = (case out of Done x \<Rightarrow> x | Diverged \<Rightarrow> d | Raised e \<Rightarrow> d)"






















text \<open>
  The import graph of the files. \<open>erase\<close> forgets the node identities of a parsed
  tree; \<open>import_targets\<close> lists the paths that the imports of a tree resolve to when the tree
  is the content of the file \<open>from\<close> (the import nodes that \<open>findImports\<close> visits: it does
  not descend into an import node). The files are acyclic when some rank decreases along
  every import.
\<close>

fun erase :: "ltree \<Rightarrow> ast" where
  "erase (LTree i p kids) = Ast p (map_option (map erase) kids)"

fun import_targets :: "env \<Rightarrow> string \<Rightarrow> ast \<Rightarrow> string list" where
  "import_targets E from (Ast p kids) =
     (if isImportNode p then [resolve E (strip_quotes (filename p)) (dirname from)]
      else (case kids of None \<Rightarrow> [] | Some ks \<Rightarrow> concat (map (import_targets E from) ks)))"

definition forest_targets :: "env \<Rightarrow> string \<Rightarrow> ltree list \<Rightarrow> string list" where
  "forest_targets E from tree = concat (map (\<lambda>t. import_targets E from (erase t)) tree)"

definition acyclic_files :: "env \<Rightarrow> (string \<Rightarrow> nat) \<Rightarrow> bool" where
  "acyclic_files E rank =
     (\<forall>p contents. files E p = Some contents \<longrightarrow>
        (\<forall>a \<in> set contents. \<forall>q \<in> set (import_targets E p a). rank q < rank p))"

definition discovery_inv :: "string set \<Rightarrow> rstate \<Rightarrow> bool" where
  "discovery_inv P st =
     (distinct (reads st)
      \<and> set (reads st) = dom (importsMap st) \<union> P
      \<and> dom (importsMap st) \<inter> P = {}
      \<and> (\<forall>p i. importsMap st p = Some i \<longrightarrow>
             i < length (orderedImports st) \<and> fullpath (orderedImports st ! i) = p)
      \<and> distinct (map fullpath (orderedImports st))
      \<and> set (map fullpath (orderedImports st)) = dom (importsMap st))"

definition below :: "(string \<Rightarrow> nat) \<Rightarrow> string set \<Rightarrow> string list \<Rightarrow> bool" where
  "below rank P ts = (\<forall>q \<in> set ts. \<forall>x \<in> P. rank q < rank x)"

text \<open>
  Example inputs: a file that imports itself, and a root document that imports
  \<open>a.less\<close> and \<open>b.less\<close> where \<open>a.less\<close> imports \<open>b.less\<close> as well.
\<close>

definition no_result :: resolved where
  "no_result = \<lparr>document = heap initial_state, rootStyles = 0, dependencies = [],
                 discovered = initial_state\<rparr>"

definition self_import_file :: "string \<Rightarrow> ast list option" where
  "self_import_file p =
     (if p = ''/d/a.less'' then Some [import_node ''a.less'' None, decl_node] else None)"

definition self_import :: "resolved outcome" where
  "self_import =
     process \<lparr>resolve = join_resolve, files = self_import_file\<rparr> nested 5
       [import_node ''a.less'' None, decl_node] ''/d/root.less''"

definition diamond_files :: "string \<Rightarrow> ast list option" where
  "diamond_files p =
     (if p = ''/d/a.less'' then Some [import_node ''b.less'' None, decl_node]
      else if p = ''/d/b.less'' then Some [decl_node]
      else None)"

definition diamond_env :: env where
  "diamond_env = \<lparr>resolve = join_resolve, files = diamond_files\<rparr>"

definition diamond_rank :: "string \<Rightarrow> nat" where
  "diamond_rank p = (if p = ''/d/a.less'' then 1 else 0)"

definition diamond_root :: "ast list" where
  "diamond_root = [import_node ''a.less'' None, import_node ''b.less'' None, decl_node]"

definition diamond :: "resolved outcome" where
  "diamond = process diamond_env nested 5 diamond_root ''/d/root.less''"


definition no_root_child :: "heap \<Rightarrow> node_id set \<Rightarrow> bool" where
  "no_root_child h R = (\<forall>i. set (node_list h i) \<inter> R = {})"




definition heap_inv :: "node_id set \<Rightarrow> rstate \<Rightarrow> bool" where
  "heap_inv Rp st =
     ((\<forall>i. set (node_list (heap st) i) \<subseteq> {..<next_id st})
      \<and> Rp \<union> set (map root (orderedImports st)) \<subseteq> {..<next_id st}
      \<and> no_root_child (heap st) (Rp \<union> set (map root (orderedImports st)))
      \<and> (\<forall>\<rho> \<in> Rp \<union> set (map root (orderedImports st)). distinct (node_list (heap st) \<rho>))
      \<and> (\<forall>\<rho> \<in> Rp \<union> set (map root (orderedImports st)).
          \<forall>\<rho>' \<in> Rp \<union> set (map root (orderedImports st)).
            \<rho> \<noteq> \<rho>' \<longrightarrow> set (node_list (heap st) \<rho>) \<inter> set (node_list (heap st) \<rho>') = {})
      \<and> distinct (map root (orderedImports st))
      \<and> Rp \<inter> set (map root (orderedImports st)) = {})"





section \<open>Properties of the broker\<close>

subsection \<open>The set operations\<close>

lemma set_foldl_set_add: "set (foldl set_add members targets) = set members \<union> set targets"
  by (induction targets arbitrary: members) (auto simp: set_add_def)

lemma distinct_foldl_set_add:
  "distinct members \<Longrightarrow> distinct (foldl set_add members targets)"
  by (induction targets arbitrary: members) (auto simp: set_add_def)

lemma prefix_foldl_set_add: "\<exists>new. foldl set_add members targets = members @ new"
  by (induction targets arbitrary: members) (auto simp: set_add_def, metis append.assoc)

subsection \<open>With the binding declared\<close>

text \<open>
  What \<open>spawnWebpackForEntry\<close> and \<open>reset\<close> do in a scope that has the binding
  \<open>webpackEntryPoints\<close>: the behaviour the commented-out declaration would give.
\<close>

lemma hasNewTargets_declared:
  "webpackEntryPoints s = Some members \<Longrightarrow>
   hasNewTargets s targets = Inr (\<not> set targets \<subseteq> set members)"
  by (induction targets) (auto simp: read_webpackEntryPoints_def set_has_def)

lemma trackTargets_declared:
  "webpackEntryPoints s = Some members \<Longrightarrow>
   trackTargets s targets = Inr (s\<lparr>webpackEntryPoints := Some (foldl set_add members targets)\<rparr>)"
  by (induction targets arbitrary: s members) (auto simp: read_webpackEntryPoints_def)

lemma spawn_reuse_declared:
  "webpackEntryPoints s = Some members \<Longrightarrow> set targets \<subseteq> set members \<Longrightarrow>
   spawnWebpackForEntry targets s = (Inr True, s)"
  by (simp add: spawnWebpackForEntry_def hasNewTargets_declared)

lemma spawn_restart_declared:
  assumes "webpackEntryPoints s = Some members" and "\<not> set targets \<subseteq> set members"
  shows "spawnWebpackForEntry targets s =
     (Inr False,
      s\<lparr>webpackDevServer := Some (next_handle s),
        webpackEntryPoints := Some (foldl set_add members targets),
        effects := effects s
           @ (case webpackDevServer s of None \<Rightarrow> [] | Some p \<Rightarrow> [ProcessKilled p])
           @ [ProcessSpawned (next_handle s) (join_comma (foldl set_add members targets))],
        next_handle := Suc (next_handle s)\<rparr>)"
  using assms
  by (simp add: spawnWebpackForEntry_def hasNewTargets_declared trackTargets_declared
      read_webpackEntryPoints_def Let_def split: option.splits)

lemma reset_declared:
  "webpackEntryPoints s = Some members \<Longrightarrow>
   reset s = (Inr (),
      s\<lparr>webpackDevServer := None, webpackEntryPoints := Some [],
        effects := effects s
          @ (case httpServer s of None \<Rightarrow> [] | Some h \<Rightarrow> [ServerClosed h])
          @ (case webpackDevServer s of None \<Rightarrow> [] | Some p \<Rightarrow> [ProcessKilled p])\<rparr>)"
  by (auto simp: reset_def read_webpackEntryPoints_def Let_def split: option.splits)

lemma spawn_after_reset_declared:
  assumes "webpackEntryPoints s = Some members" and "targets \<noteq> []"
  shows "fst (spawnWebpackForEntry targets (snd (reset s))) = Inr False"
proof -
  have "webpackEntryPoints (snd (reset s)) = Some []"
    using assms(1) by (simp add: reset_declared)
  moreover have "\<not> set targets \<subseteq> set []"
    using assms(2) by simp
  ultimately show ?thesis
    by (simp add: spawn_restart_declared)
qed

subsection \<open>Without the binding, as the module is written\<close>

lemma hasNewTargets_undeclared:
  "webpackEntryPoints s = None \<Longrightarrow> targets \<noteq> [] \<Longrightarrow>
   hasNewTargets s targets = Inl (ReferenceError ''webpackEntryPoints is not defined'')"
  by (cases targets) (auto simp: read_webpackEntryPoints_def)

lemma reset_undeclared:
  "webpackEntryPoints s = None \<Longrightarrow>
   reset s = (Inl (ReferenceError ''webpackEntryPoints is not defined''),
      s\<lparr>effects := effects s @ (case httpServer s of None \<Rightarrow> [] | Some h \<Rightarrow> [ServerClosed h])\<rparr>)"
  by (auto simp: reset_def read_webpackEntryPoints_def Let_def split: option.splits)

lemma spawn_undeclared:
  "webpackEntryPoints s = None \<Longrightarrow> targets \<noteq> [] \<Longrightarrow>
   spawnWebpackForEntry targets s = (Inl (ReferenceError ''webpackEntryPoints is not defined''), s)"
  by (simp add: spawnWebpackForEntry_def hasNewTargets_undeclared)

text \<open>
  Claim C1. \<open>ensureWorker(targets)\<close> (\<open>spawnWebpackForEntry\<close>) is specified to report
  reuse when every target is tracked and otherwise to merge the targets into the Tracked
  Entry Set, kill the previous worker and spawn a new one for the whole set. In the
  module as written the set has no binding, so the first membership test of a call with
  a target raises a \<open>ReferenceError\<close>: nothing is merged, killed or spawned.
  (\<open>spawn_reuse_declared\<close> and \<open>spawn_restart_declared\<close> show that the function body
  does what the claim says once the binding exists.)
\<close>

theorem ensureWorker_raises_as_written:
  "spawnWebpackForEntry [''a''] module_scope
     = (Inl (ReferenceError ''webpackEntryPoints is not defined''), module_scope)"
  by (simp add: spawnWebpackForEntry_def module_scope_def read_webpackEntryPoints_def)

text \<open>
  Claim C8. \<open>reset()\<close> is specified to close the HTTP listener, clear the Tracked Entry
  Set, kill the live worker and clear its handle. In the module as written it closes the
  listener and then raises a \<open>ReferenceError\<close> at \<open>webpackEntryPoints.clear()\<close>: the
  worker is not killed and its handle stays. (\<open>reset_declared\<close> and
  \<open>spawn_after_reset_declared\<close> show the specified behaviour once the binding exists.)
\<close>

theorem reset_raises_as_written:
  "reset (module_scope\<lparr>httpServer := Some 0, webpackDevServer := Some 1\<rparr>)
     = (Inl (ReferenceError ''webpackEntryPoints is not defined''),
        module_scope\<lparr>httpServer := Some 0, webpackDevServer := Some 1,
                     effects := [ServerClosed 0]\<rparr>)"
  by (simp add: module_scope_def reset_def read_webpackEntryPoints_def)

text \<open>
  Claim C10. The binding \<open>webpackEntryPoints\<close> is never declared, so loading the broker
  module raises a \<open>ReferenceError\<close>, and so does every operation that reads the set:
  the scope of the module has no such binding, no operation creates one, \<open>reset\<close> raises
  (leaving the worker handle as it was), and \<open>spawnWebpackForEntry\<close> raises for every
  non-empty target list and leaves the scope unchanged. (For the empty target list the
  membership test never runs and the set is not read.)
\<close>

theorem tracked_set_never_declared:
  "load_module = Inl (ReferenceError ''webpackEntryPoints is not defined'')
   \<and> webpackEntryPoints module_scope = None
   \<and> (webpackEntryPoints s = None \<longrightarrow>
        fst (reset s) = Inl (ReferenceError ''webpackEntryPoints is not defined'')
        \<and> webpackEntryPoints (snd (reset s)) = None
        \<and> webpackDevServer (snd (reset s)) = webpackDevServer s
        \<and> (targets \<noteq> [] \<longrightarrow>
             spawnWebpackForEntry targets s
               = (Inl (ReferenceError ''webpackEntryPoints is not defined''), s)))"
  by (simp add: load_module_def module_scope_def read_webpackEntryPoints_def
      reset_undeclared spawn_undeclared)

theorem tracked_set_never_declared_witness:
  "webpackEntryPoints (module_scope\<lparr>httpServer := Some 0, webpackDevServer := Some 1\<rparr>) = None
   \<and> [''index.js''] \<noteq> []
   \<and> reset (module_scope\<lparr>httpServer := Some 0, webpackDevServer := Some 1\<rparr>)
       = (Inl (ReferenceError ''webpackEntryPoints is not defined''),
          module_scope\<lparr>httpServer := Some 0, webpackDevServer := Some 1,
                       effects := [ServerClosed 0]\<rparr>)
   \<and> spawnWebpackForEntry [''index.js'']
         (module_scope\<lparr>httpServer := Some 0, webpackDevServer := Some 1\<rparr>)
       = (Inl (ReferenceError ''webpackEntryPoints is not defined''),
          module_scope\<lparr>httpServer := Some 0, webpackDevServer := Some 1\<rparr>)"
  using tracked_set_never_declared
          [of "module_scope\<lparr>httpServer := Some 0, webpackDevServer := Some 1\<rparr>" "[''index.js'']"]
  by (simp add: module_scope_def reset_def read_webpackEntryPoints_def)

subsection \<open>findRootEntryForAsset\<close>

lemma jsEntries_forEach_eq:
  "jsEntries_forEach asset hasMatch jsEntries = (hasMatch \<or> asset \<in> set jsEntries)"
  by (induction jsEntries arbitrary: hasMatch) auto

lemma cssEntries_forEach_eq:
  "\<not> starts_with_src_less (strip_rtl asset) \<Longrightarrow>
   cssEntries_forEach asset hasMatch cssEntries
     = Inr (hasMatch \<or> strip_rtl asset \<in> style_basename ` set cssEntries)"
  by (induction cssEntries arbitrary: hasMatch)
     (auto simp: cssEntry_step_def strip_rtl_def style_basename_def Let_def split: prod.splits)

lemma cssEntries_forEach_src_less:
  "starts_with_src_less (strip_rtl asset) \<Longrightarrow> cssEntries \<noteq> [] \<Longrightarrow>
   cssEntries_forEach asset hasMatch cssEntries = Inl (TypeError ''Assignment to constant variable.'')"
  by (cases cssEntries)
     (auto simp: cssEntry_step_def strip_rtl_def Let_def split: prod.splits)

lemma entryPoints_forEach_found:
  "truthy rootEntry \<Longrightarrow> entryPoints_forEach asset rootEntry entryPoints = Inr rootEntry"
  by (induction entryPoints) auto

text \<open>
  Away from the \<open>src/less/\<close> prefix the function does what is specified: the first entry
  point that claims the asset decides, and the result is its first script entry.
\<close>

lemma findRootEntryForAsset_first_claim:
  assumes "\<not> starts_with_src_less (strip_rtl asset)"
    and "\<forall>entry \<in> set entryPoints. truthy (first_entry (fst entry))"
  shows "findRootEntryForAsset entryPoints asset
     = Inr (case find (claims asset) entryPoints of
              None \<Rightarrow> None
            | Some entry \<Rightarrow> first_entry (fst entry))"
  using assms unfolding findRootEntryForAsset_def
proof (induction entryPoints)
  case Nil
  show ?case by simp
next
  case (Cons entry rest)
  obtain js css where e: "entry = (js, css)" by (cases entry)
  show ?case
  proof (cases "claims asset entry")
    case True
    with Cons.prems e show ?thesis
      by (simp add: truthy_def[of None] cssEntries_forEach_eq jsEntries_forEach_eq claims_def
          entryPoints_forEach_found)
  next
    case False
    with Cons e show ?thesis
      by (simp add: truthy_def[of None] cssEntries_forEach_eq jsEntries_forEach_eq claims_def)
  qed
qed

lemma strip_rtl_suffixed: "strip_rtl (asset @ ''.rtl'') = asset"
  by (simp add: strip_rtl_def slice_last4_def slice_drop_last4_def)

lemma findRootEntryForAsset_src_less:
  "starts_with_src_less (strip_rtl asset) \<Longrightarrow> cssEntries \<noteq> [] \<Longrightarrow>
   findRootEntryForAsset ((jsEntries, cssEntries) # rest) asset
     = Inl (TypeError ''Assignment to constant variable.'')"
  by (simp add: findRootEntryForAsset_def truthy_def cssEntries_forEach_src_less)

text \<open>
  Claim C2. \<open>findRootEntryForAsset\<close> is specified to match style assets after stripping
  the \<open>.rtl\<close> suffix and the \<open>src/less/\<close> prefix. The prefix is stripped by an assignment
  to \<open>assetWithoutRTL\<close>, which is declared \<open>const\<close>: for an asset under \<open>src/less/\<close> the
  function raises a \<open>TypeError\<close> instead of resolving the owning entry. Here the style
  entry \<open>theme/index.less\<close> is compared under the name \<open>theme/index\<close>, which is the asset
  without its prefix. (\<open>findRootEntryForAsset_first_claim\<close> covers all other assets.)
\<close>

theorem src_less_asset_raises:
  "findRootEntryForAsset [([''index.js''], [''theme/index.less''])] ''src/less/theme/index''
     = Inl (TypeError ''Assignment to constant variable.'')"
  by (simp add: findRootEntryForAsset_def truthy_def cssEntry_step_def path_parse_def
      parse_name_def slice_last4_def slice_drop_last4_def starts_with_src_less_def Let_def)

section \<open>Properties of the resolver\<close>

subsection \<open>Reading results\<close>

lemma is_Done_result_of: "is_Done out \<Longrightarrow> out = Done (result_of d out)"
  by (cases out) (auto simp: result_of_def)

subsection \<open>Node lists under the heap updates\<close>


lemma node_list_set_before [simp]: "node_list (set_before h n s) m = node_list h m"
  by (simp add: node_list_def set_before_def)



subsection \<open>A record that is globally imported\<close>




subsection \<open>Errors of the injection\<close>









subsection \<open>A record that is imported from inclusion rules only\<close>



lemma info_set_nodes [simp]: "info (set_nodes h f l n) = info (h n)"
  by (simp add: set_nodes_def)

lemma is_import_of_set_nodes [simp]: "is_import_of E r (set_nodes h f l) n = is_import_of E r h n"
  by (simp add: is_import_of_def)


lemma set_nodes_twice [simp]: "set_nodes (set_nodes h f l) f l' = set_nodes h f l'"
  by (simp add: set_nodes_def)









subsection \<open>Discovery: one record and one read per path\<close>

lemma alloc_erase:
  "alloc par a hn = (l, hn') \<Longrightarrow> erase l = a"
  "alloc_list par as hn = (ls, hn') \<Longrightarrow> map erase ls = as"
  by (induction par a hn and par as hn arbitrary: l hn' and ls hn' rule: alloc_alloc_list.induct)
     (auto split: option.splits prod.splits)

lemma parse_erase: "parse contents st = ((r, tree), st1) \<Longrightarrow> map erase tree = contents"
  by (auto simp: parse_def Let_def split: prod.splits dest: alloc_erase(2))

lemma parse_fields:
  "parse contents st = (x, st1) \<Longrightarrow>
   reads st1 = reads st \<and> importsMap st1 = importsMap st \<and> orderedImports st1 = orderedImports st"
  by (auto simp: parse_def Let_def split: prod.splits)

lemma fullpath_note_reference [simp]: "fullpath (note_reference tag r) = fullpath r"
  by (simp add: note_reference_def split: option.splits)

lemma inv_merge:
  assumes "discovery_inv P st" and "importsMap st full = Some i"
  shows "discovery_inv P (st\<lparr>orderedImports :=
            (orderedImports st)[i := note_reference tag (orderedImports st ! i)]\<rparr>)"
proof -
  have "map fullpath ((orderedImports st)[i := note_reference tag (orderedImports st ! i)])
          = map fullpath (orderedImports st)"
    by (simp add: map_update) (simp add: map_update[symmetric])
  moreover have "fullpath ((orderedImports st)[i := note_reference tag (orderedImports st ! i)] ! j)
        = fullpath (orderedImports st ! j)" if "j < length (orderedImports st)" for j
    using that by (cases "i = j") simp_all
  ultimately show ?thesis
    using assms(1) unfolding discovery_inv_def by simp
qed

lemma inv_read:
  assumes "discovery_inv P st" and "importsMap st full = None" and "full \<notin> P"
    and "parse contents (st\<lparr>reads := reads st @ [full]\<rparr>) = (x, st1)"
  shows "discovery_inv (P \<union> {full}) st1"
  using assms(1,2,3) parse_fields[OF assms(4)]
  unfolding discovery_inv_def by (auto simp: domIff)

lemma inv_record:
  assumes "discovery_inv (P \<union> {full}) st" and "full \<notin> P" and "fullpath rec = full"
  shows "discovery_inv P (st\<lparr>importsMap := (importsMap st)(full := Some (length (orderedImports st))),
                             orderedImports := orderedImports st @ [rec]\<rparr>)"
proof -
  from assms(1) have nd: "full \<notin> dom (importsMap st)"
    unfolding discovery_inv_def by auto
  show ?thesis
    using assms nd unfolding discovery_inv_def
    by (auto simp: nth_append domIff less_Suc_eq)
qed

lemma below_subset: "below rank P ts \<Longrightarrow> set ts' \<subseteq> set ts \<Longrightarrow> below rank P ts'"
  by (auto simp: below_def)

lemma findImports_inv:
  "findImports E opts fuel tree from st = Done st' \<Longrightarrow> acyclic_files E rank \<Longrightarrow>
   discovery_inv P st \<Longrightarrow> below rank P (forest_targets E from tree) \<Longrightarrow> discovery_inv P st'"
  "runPlugins E plugs fuel tree from st = Done st' \<Longrightarrow> acyclic_files E rank \<Longrightarrow>
   discovery_inv P st \<Longrightarrow> below rank P (forest_targets E from tree) \<Longrightarrow> discovery_inv P st'"
proof (induction E opts fuel tree "from" st and E plugs fuel tree "from" st
       arbitrary: P st' and P st' rule: findImports_runPlugins.induct)
  case (1 E opts fuel "from" st)
  then show ?case by simp
next
  case (2 E opts fuel sn p kids rest "from" st)
  let ?full = "resolve E (strip_quotes (filename p)) (dirname from)"
  have rest_below: "below rank P (forest_targets E from rest)"
    using "2.prems"(4) by (rule below_subset) (auto simp: forest_targets_def)
  show ?case
  proof (cases "isImportNode p")
    case imp: True
    show ?thesis
    proof (cases "importsMap st ?full")
      case (Some i)
      have run: "findImports E opts fuel rest from
               (st\<lparr>orderedImports := (orderedImports st)
                      [i := note_reference (fromInclusionRule p) (orderedImports st ! i)]\<rparr>) = Done st'"
        using "2.prems"(1) imp Some by (simp add: Let_def)
      show ?thesis
        by (rule "2.IH"(4)[OF imp refl Some run "2.prems"(2) inv_merge[OF "2.prems"(3) Some] rest_below])
    next
      case None
      from "2.prems"(1) imp None obtain fuel' where fuel: "fuel = Suc fuel'"
        by (cases fuel) (simp_all add: Let_def)
      from "2.prems"(1) imp None fuel obtain contents where files: "files E ?full = Some contents"
        by (cases "files E ?full") (simp_all add: Let_def)
      obtain r t st1 where parse: "parse contents (st\<lparr>reads := reads st @ [?full]\<rparr>) = ((r, t), st1)"
        by (metis surj_pair)
      let ?rec = "new_record r sn ?full from (fromInclusionRule p)"
      from "2.prems"(1) imp None fuel files parse obtain st2 where
        plug: "runPlugins E (plugins opts) fuel' t ?full st1 = Done st2"
        by (cases "runPlugins E (plugins opts) fuel' t ?full st1") (simp_all add: Let_def)
      let ?st2' = "st2\<lparr>importsMap := (importsMap st2)(?full := Some (length (orderedImports st2))),
                       orderedImports := orderedImports st2 @ [?rec]\<rparr>"
      from "2.prems"(1) imp None fuel files parse plug obtain st3 where
        inner: "findImports E opts fuel' t ?full ?st2' = Done st3"
        by (cases "findImports E opts fuel' t ?full ?st2'") (simp_all add: Let_def)
      from "2.prems"(1) imp None fuel files parse plug inner have
        tail: "findImports E opts fuel rest from st3 = Done st'"
        by (simp add: Let_def)
      have full_low: "\<forall>x \<in> P. rank ?full < rank x"
        using "2.prems"(4) imp by (auto simp: below_def forest_targets_def)
      then have notP: "?full \<notin> P" by auto
      have er: "map erase t = contents" by (rule parse_erase[OF parse])
      have low: "\<forall>q \<in> set (forest_targets E ?full t). rank q < rank ?full"
        using "2.prems"(2) files er unfolding acyclic_files_def forest_targets_def
        by (auto simp: comp_def) (metis (no_types, lifting) image_eqI list.set_map)
      have belowP': "below rank (P \<union> {?full}) (forest_targets E ?full t)"
        using low full_low unfolding below_def by (auto intro: less_trans)
      have belowP: "below rank P (forest_targets E ?full t)"
        using belowP' by (auto simp: below_def)
      have i1: "discovery_inv (P \<union> {?full}) st1"
        by (rule inv_read[OF "2.prems"(3) None notP parse])
      have i2: "discovery_inv (P \<union> {?full}) st2"
        by (rule "2.IH"(1)[OF imp refl None fuel files parse[symmetric] refl plug "2.prems"(2) i1 belowP'])
      have i2': "discovery_inv P ?st2'"
        by (rule inv_record[OF i2 notP]) (simp add: new_record_def)
      have i3: "discovery_inv P st3"
        by (rule "2.IH"(2)[OF imp refl None fuel files parse[symmetric] refl plug inner "2.prems"(2) i2' belowP])
      show ?thesis
        by (rule "2.IH"(3)[OF imp refl None fuel files parse[symmetric] refl plug inner tail "2.prems"(2) i3 rest_below])
    qed
  next
    case nimp: False
    show ?thesis
    proof (cases kids)
      case None
      from "2.prems"(1) nimp None have run: "findImports E opts fuel rest from st = Done st'"
        by simp
      show ?thesis
        by (rule "2.IH"(5)[OF nimp None run "2.prems"(2,3) rest_below])
    next
      case (Some ks)
      from "2.prems"(1) nimp Some obtain st1 where
        k: "findImports E opts fuel ks from st = Done st1"
        by (cases "findImports E opts fuel ks from st") simp_all
      from "2.prems"(1) nimp Some k have tail: "findImports E opts fuel rest from st1 = Done st'"
        by simp
      have kb: "below rank P (forest_targets E from ks)"
        using "2.prems"(4) nimp Some
        by (rule_tac below_subset) (auto simp: forest_targets_def comp_def)
      have i1: "discovery_inv P st1"
        by (rule "2.IH"(6)[OF nimp Some k "2.prems"(2,3) kb])
      show ?thesis
        by (rule "2.IH"(7)[OF nimp Some k tail "2.prems"(2) i1 rest_below])
    qed
  qed
next
  case (3 E fuel tree "from" st)
  then show ?case by simp
next
  case (4 E plugin others fuel tree "from" st)
  from "4.prems"(1) obtain st1 where
    f: "findImports E plugin fuel tree from st = Done st1"
    by (cases "findImports E plugin fuel tree from st") simp_all
  from "4.prems"(1) f have tail: "runPlugins E others fuel tree from st1 = Done st'"
    by simp
  have i1: "discovery_inv P st1"
    by (rule "4.IH"(1)[OF f "4.prems"(2,3,4)])
  show ?case
    by (rule "4.IH"(2)[OF f tail "4.prems"(2) i1 "4.prems"(4)])
qed

lemma discovery_inv_initial: "discovery_inv {} initial_state"
  by (simp add: discovery_inv_def initial_state_def)

lemma OnceExit_discovered:
  "OnceExit E opts fuel rootId tree from st0 = Done res \<Longrightarrow>
   findImports E opts fuel tree from st0 = Done (discovered res)"
  by (auto simp: OnceExit_def Let_def split: outcome.splits)

text \<open>
  Claim C3, for acyclic files. When the imports of the files are acyclic, a run that
  completes has read every path at most once (each read is followed by the one parse of
  what was read), holds exactly one Import Record for each path that was read, and the
  map from paths gives for each path the position of its record in the ordered list:
  the record is shared by position, and later references update it in place
  (\<open>note_reference\<close>).
\<close>

theorem one_record_per_path:
  assumes "acyclic_files E rank" and "process E opts fuel contents from = Done res"
  shows "distinct (reads (discovered res))
       \<and> distinct (map fullpath (orderedImports (discovered res)))
       \<and> set (map fullpath (orderedImports (discovered res))) = set (reads (discovered res))
       \<and> (\<forall>p i. importsMap (discovered res) p = Some i \<longrightarrow>
             i < length (orderedImports (discovered res))
             \<and> fullpath (orderedImports (discovered res) ! i) = p)"
proof -
  obtain rootId tree st0 where p: "parse contents initial_state = ((rootId, tree), st0)"
    by (metis surj_pair)
  with assms(2) have "OnceExit E opts fuel rootId tree from st0 = Done res"
    by (simp add: process_def)
  then have f: "findImports E opts fuel tree from st0 = Done (discovered res)"
    by (rule OnceExit_discovered)
  have "discovery_inv {} st0"
    using discovery_inv_initial parse_fields[OF p] by (simp add: discovery_inv_def)
  then have "discovery_inv {} (discovered res)"
    by (rule findImports_inv(1)[OF f assms(1)]) (simp add: below_def)
  then show ?thesis
    by (simp add: discovery_inv_def)
qed

text \<open>
  Claim C3, as stated for every graph, fails under the configuration the repository uses
  (the plugin runs again inside every nested parse): \<open>/d/a.less\<close> imports itself. The
  outer run reads it and registers it only after the nested parse, during which the
  nested run meets the import, finds no record and reads the file again. The file is
  read twice and the ordered list holds two records for its path.
\<close>

theorem self_import_read_twice:
  "files_read self_import = Done [''/d/a.less'', ''/d/a.less'']
   \<and> records_found self_import
       = Done [\<lparr>root = 6, styleNode = 4, fullpath = ''/d/a.less'', fromPath = ''/d/a.less'',
                isGloballyImported = True, inclusionRules = []\<rparr>,
               \<lparr>root = 3, styleNode = 1, fullpath = ''/d/a.less'', fromPath = ''/d/root.less'',
                isGloballyImported = True, inclusionRules = []\<rparr>]
   \<and> \<not> distinct [''/d/a.less'', ''/d/a.less'']"
  by code_simp

lemma diamond_acyclic: "acyclic_files diamond_env diamond_rank"
  by (auto simp: acyclic_files_def diamond_env_def diamond_files_def diamond_rank_def
      import_node_def decl_node_def isImportNode_def join_resolve_def strip_quotes_def
      dirname_def Let_def split: if_splits)

theorem one_record_per_path_witness:
  "reads (discovered (result_of no_result diamond)) = [''/d/a.less'', ''/d/b.less'']
   \<and> map fullpath (orderedImports (discovered (result_of no_result diamond)))
       = [''/d/b.less'', ''/d/a.less'']
   \<and> distinct (reads (discovered (result_of no_result diamond)))
   \<and> distinct (map fullpath (orderedImports (discovered (result_of no_result diamond))))"
proof -
  have d: "is_Done diamond"
    by code_simp
  have p: "process diamond_env nested 5 diamond_root ''/d/root.less''
             = Done (result_of no_result diamond)"
    using is_Done_result_of[OF d, of no_result] by (simp add: diamond_def)
  have r: "reads (discovered (result_of no_result diamond)) = [''/d/a.less'', ''/d/b.less'']"
    by code_simp
  have f: "map fullpath (orderedImports (discovered (result_of no_result diamond)))
       = [''/d/b.less'', ''/d/a.less'']"
    by code_simp
  have "distinct (reads (discovered (result_of no_result diamond)))
       \<and> distinct (map fullpath (orderedImports (discovered (result_of no_result diamond))))"
    using one_record_per_path[OF diamond_acyclic p] by blast
  then show ?thesis
    by (rule conjI[OF r conjI[OF f]])
qed

subsection \<open>Injection: what is prepended to the document\<close>


lemma info_set_before [simp]: "info (set_before h n s m) = info (h m)"
  by (simp add: set_before_def)





lemma info_safeRemove [simp]: "info (safeRemove h c n) = info (h n)"
  by (auto simp: safeRemove_def Let_def split: option.splits)






















lemma heap_inv_reads [simp]: "heap_inv Rp (st\<lparr>reads := x\<rparr>) = heap_inv Rp st"
  by (simp add: heap_inv_def)


lemma root_note_reference [simp]: "root (note_reference tag r) = root r"
  by (simp add: note_reference_def split: option.splits)



















end
